theory Spec2Isabelle
  imports Main
begin

section \<open>JavaScript values used by the frontend\<close>

text \<open>
  The frontend (\<^verbatim>\<open>src/frontend/app.js\<close>, \<^verbatim>\<open>src/frontend/contribute.js\<close>) only handles
  values that come out of \<^verbatim>\<open>JSON.parse\<close>, plus \<^verbatim>\<open>undefined\<close>.  A parsed number is
  carried as its \<^verbatim>\<open>Number.prototype.toString\<close> rendering (the code only ever converts
  numbers to strings or tests them for truthiness; a parsed number is never NaN, and both
  zeros render as \<^verbatim>\<open>0\<close>).  An object is the list of its own properties in
  enumeration order, keys distinct.  \<^verbatim>\<open>undefined\<close> is \<open>None\<close> of \<open>json option\<close>.
  Strings are lists of code units below 256.
\<close>

datatype json =
    JNull
  | JBool bool
  | JNum string
  | JStr string
  | JArr "json list"
  | JObj "(string \<times> json) list"

type_synonym js_value = "json option"

datatype error = Error string | TypeError string | ReferenceError string

fun message :: "error \<Rightarrow> string" where
  "message (Error m) = m"
| "message (TypeError m) = m"
| "message (ReferenceError m) = m"

text \<open>Decimal rendering of a non-negative integer, as a template literal renders a status code.\<close>

fun nat_to_string :: "nat \<Rightarrow> string" where
  "nat_to_string n =
     (if n < 10 then [char_of (48 + n)]
      else nat_to_string (n div 10) @ [char_of (48 + n mod 10)])"

declare nat_to_string.simps [simp del]

text \<open>\<^verbatim>\<open>Array.prototype.join\<close> with a separator, on already rendered elements.\<close>

fun join :: "string \<Rightarrow> string list \<Rightarrow> string" where
  "join sep [] = []"
| "join sep [x] = x"
| "join sep (x # y # ys) = x @ sep @ join sep (y # ys)"

text \<open>
  \<^verbatim>\<open>ToString\<close>, as applied by a template literal.  An array renders as the join of its
  elements with a comma, \<^verbatim>\<open>null\<close> elements rendering as the empty string; a plain object
  renders as \<^verbatim>\<open>[object Object]\<close>.  Objects with an own property named \<^verbatim>\<open>toString\<close> or
  \<^verbatim>\<open>valueOf\<close>, whose conversion would throw, are not covered.
\<close>

fun ToString :: "json \<Rightarrow> string" where
  "ToString JNull = ''null''"
| "ToString (JBool b) = (if b then ''true'' else ''false'')"
| "ToString (JNum n) = n"
| "ToString (JStr s) = s"
| "ToString (JArr xs) = join '','' (map (\<lambda>x. if x = JNull then [] else ToString x) xs)"
| "ToString (JObj ps) = ''[object Object]''"

fun ToString_value :: "js_value \<Rightarrow> string" where
  "ToString_value None = ''undefined''"
| "ToString_value (Some v) = ToString v"

text \<open>Truthiness (\<^verbatim>\<open>ToBoolean\<close>): what \<^verbatim>\<open>!x\<close> and \<^verbatim>\<open>x || y\<close> test.\<close>

fun truthy :: "js_value \<Rightarrow> bool" where
  "truthy None = False"
| "truthy (Some JNull) = False"
| "truthy (Some (JBool b)) = b"
| "truthy (Some (JNum n)) = (n \<noteq> ''0'')"
| "truthy (Some (JStr s)) = (s \<noteq> [])"
| "truthy (Some (JArr xs)) = True"
| "truthy (Some (JObj ps)) = True"

text \<open>
  Property read \<^verbatim>\<open>v.k\<close> for a property name \<open>k\<close> that no built-in prototype defines
  (\<^verbatim>\<open>id\<close>, \<^verbatim>\<open>type\<close>, \<^verbatim>\<open>metadata\<close>, \<^verbatim>\<open>net_score\<close>, \<^verbatim>\<open>total_cost\<close>): a \<^verbatim>\<open>TypeError\<close> on
  \<^verbatim>\<open>null\<close> and \<^verbatim>\<open>undefined\<close>, the property of an object, \<^verbatim>\<open>undefined\<close> otherwise.
\<close>

definition cannot_read :: "string \<Rightarrow> string \<Rightarrow> error" where
  "cannot_read what k =
     TypeError (''Cannot read properties of '' @ what @ '' (reading '' @ [CHR 0x27] @ k @ [CHR 0x27] @ '')'')"

fun get_prop :: "js_value \<Rightarrow> string \<Rightarrow> error + js_value" where
  "get_prop None k = Inl (cannot_read ''undefined'' k)"
| "get_prop (Some JNull) k = Inl (cannot_read ''null'' k)"
| "get_prop (Some (JObj ps)) k = Inr (map_of ps k)"
| "get_prop (Some v) k = Inr None"

text \<open>Optional chaining \<^verbatim>\<open>v?.k\<close>: \<^verbatim>\<open>undefined\<close> on \<^verbatim>\<open>null\<close> and \<^verbatim>\<open>undefined\<close>, never throws.\<close>

fun opt_chain :: "js_value \<Rightarrow> string \<Rightarrow> js_value" where
  "opt_chain (Some (JObj ps)) k = map_of ps k"
| "opt_chain v k = None"

text \<open>Nullish coalescing \<^verbatim>\<open>v ?? d\<close>.\<close>

fun nullish :: "js_value \<Rightarrow> json \<Rightarrow> json" where
  "nullish None d = d"
| "nullish (Some JNull) d = d"
| "nullish (Some v) d = v"

section \<open>Transport\<close>

text \<open>
  What \<^verbatim>\<open>fetch\<close> gives back: the promise rejects (\<open>Inl\<close>, a transport failure) or
  resolves with a response.  \<open>body_text\<close> and \<open>body_json\<close> are what \<^verbatim>\<open>response.text()\<close>
  and \<^verbatim>\<open>response.json()\<close> settle with; \<open>Inl\<close> is a rejection (a body that is not JSON).
\<close>

record response =
  status :: nat
  statusText :: string
  body_text :: "error + string"
  body_json :: "error + json"

type_synonym fetch_outcome = "error + response"

definition ok :: "response \<Rightarrow> bool" where
  "ok r = (200 \<le> status r \<and> status r \<le> 299)"

definition API_BASE_URL :: string where
  "API_BASE_URL = ''https://moy7eewxxe.execute-api.us-east-2.amazonaws.com/main''"

section \<open>Retry policy: \<^verbatim>\<open>fetchWithRetry\<close> of contribute.js\<close>

text \<open>
  The \<^verbatim>\<open>try\<close> block of one loop iteration, given what \<^verbatim>\<open>fetch\<close> settled with: \<open>Inr\<close> is
  the \<^verbatim>\<open>return response\<close>, \<open>Inl\<close> every \<^verbatim>\<open>throw\<close> (and the rejection of \<^verbatim>\<open>fetch\<close> or of
  \<^verbatim>\<open>response.text()\<close>), all of which land in the \<^verbatim>\<open>catch\<close> of the same iteration.
\<close>

definition terminal_status :: "nat \<Rightarrow> bool" where
  "terminal_status st = (st = 400 \<or> st = 403 \<or> st = 409 \<or> st = 424)"

definition attempt_try :: "fetch_outcome \<Rightarrow> error + response" where
  "attempt_try out =
     (case out of
        Inl e \<Rightarrow> Inl e
      | Inr r \<Rightarrow>
          if ok r then Inr r
          else if terminal_status (status r) then
            (case body_text r of
               Inl e \<Rightarrow> Inl e
             | Inr errorBody \<Rightarrow>
                 Inl (Error (''API Error ('' @ nat_to_string (status r) @ ''): ''
                             @ (if errorBody \<noteq> [] then errorBody else statusText r))))
          else Inl (Error (''HTTP Error: '' @ nat_to_string (status r) @ '' '' @ statusText r)))"

text \<open>
  How a call of an async function ends: it returns a value (\<open>None\<close> is \<^verbatim>\<open>undefined\<close>,
  when the loop runs out without returning) or throws.  A run also records the delays
  slept, in order and in milliseconds, and the number of \<^verbatim>\<open>fetch\<close> calls made.
\<close>

datatype retry_result = Returned "response option" | Thrown error

record retry_run =
  result :: retry_result
  delays :: "nat list"
  attempts :: nat

text \<open>
  The \<^verbatim>\<open>for\<close> loop from \<open>attempt\<close> on.  \<open>env k\<close> is what the \<open>k\<close>-th call of \<^verbatim>\<open>fetch\<close>
  (zero-based) settles with; the loop makes one call per iteration, so the call index is
  the attempt index.  \<open>maxRetries\<close> is a natural number, as the default 3 is.
\<close>

function fetchWithRetry_loop :: "(nat \<Rightarrow> fetch_outcome) \<Rightarrow> nat \<Rightarrow> nat \<Rightarrow> nat list \<Rightarrow> retry_run" where
  "fetchWithRetry_loop env maxRetries attempt slept =
     (if attempt < maxRetries then
        (case attempt_try (env attempt) of
           Inr r \<Rightarrow> \<lparr>result = Returned (Some r), delays = slept, attempts = attempt + 1\<rparr>
         | Inl e \<Rightarrow>
             if attempt = maxRetries - 1
             then \<lparr>result = Thrown e, delays = slept, attempts = attempt + 1\<rparr>
             else fetchWithRetry_loop env maxRetries (attempt + 1) (slept @ [2 ^ attempt * 1000]))
      else \<lparr>result = Returned None, delays = slept, attempts = attempt\<rparr>)"
  by pat_completeness auto
termination
  by (relation "measure (\<lambda>(env, maxRetries, attempt, slept). maxRetries - attempt)") auto

declare fetchWithRetry_loop.simps [simp del]

definition fetchWithRetry :: "(nat \<Rightarrow> fetch_outcome) \<Rightarrow> nat \<Rightarrow> retry_run" where
  "fetchWithRetry env maxRetries = fetchWithRetry_loop env maxRetries 0 []"

text \<open>The outcomes the retry policy calls transient, and the successful ones.\<close>

definition transient :: "fetch_outcome \<Rightarrow> bool" where
  "transient out =
     (case out of Inl e \<Rightarrow> True | Inr r \<Rightarrow> \<not> ok r \<and> \<not> terminal_status (status r))"

definition transient_error :: "fetch_outcome \<Rightarrow> error" where
  "transient_error out =
     (case out of
        Inl e \<Rightarrow> e
      | Inr r \<Rightarrow> Error (''HTTP Error: '' @ nat_to_string (status r) @ '' '' @ statusText r))"

section \<open>Submission handler of contribute.js\<close>

text \<open>
  \<^verbatim>\<open>String.prototype.trim\<close> strips white space and line terminators at both ends; among the
  code units below 256 these are TAB, LF, VT, FF, CR, SPACE and NBSP.
\<close>

definition is_space :: "char \<Rightarrow> bool" where
  "is_space c =
     (c = CHR 0x09 \<or> c = CHR 0x0A \<or> c = CHR 0x0B \<or> c = CHR 0x0C \<or> c = CHR 0x0D
      \<or> c = CHR 0x20 \<or> c = CHR 0xA0)"

definition trim :: "string \<Rightarrow> string" where
  "trim s = rev (dropWhile is_space (rev (dropWhile is_space s)))"

text \<open>
  A call of \<^verbatim>\<open>fetch\<close>: the method, the URL and the payload handed to \<^verbatim>\<open>JSON.stringify\<close>
  (\<open>None\<close> when the call has no body).  Headers are not modelled.
\<close>

record request =
  req_method :: string
  req_url :: string
  req_body :: js_value

record contribute_page =
  typeSelect_value :: string
  urlInput_value :: string
  submitButton_disabled :: bool
  submitButton_innerHTML :: string
  messageContainer_textContent :: string
  messageContainer_className :: string

definition showMessage :: "string \<Rightarrow> bool \<Rightarrow> contribute_page \<Rightarrow> contribute_page" where
  "showMessage msg isError p =
     p\<lparr>messageContainer_textContent := msg,
       messageContainer_className :=
         (if isError then ''message-container error'' else ''message-container success'')\<rparr>"

definition submit_request :: "contribute_page \<Rightarrow> request" where
  "submit_request p =
     \<lparr>req_method = ''POST'',
      req_url = API_BASE_URL @ ''/artifact/'' @ typeSelect_value p,
      req_body = Some (JObj [(''url'', JStr (trim (urlInput_value p)))])\<rparr>"

text \<open>
  The branch taken when the status is 201.  \<^verbatim>\<open>nameInput\<close> is not declared anywhere in
  contribute.js (line 10: its declaration was removed), so evaluating the right operand of
  \<^verbatim>\<open>result.metadata?.name || nameInput.value.trim()\<close> throws a \<^verbatim>\<open>ReferenceError\<close>.
\<close>

definition success_message :: "js_value \<Rightarrow> js_value \<Rightarrow> string" where
  \<open>success_message artifactName artifactId =
     ''Artifact "'' @ ToString_value artifactName @ ''" registered successfully! ID: ''
       @ ToString_value artifactId\<close>

definition on_created :: "response \<Rightarrow> contribute_page \<Rightarrow> error + contribute_page" where
  "on_created resp p =
     (case body_json resp of
        Inl e \<Rightarrow> Inl e
      | Inr res \<Rightarrow>
          (case get_prop (Some res) ''metadata'' of
             Inl e \<Rightarrow> Inl e
           | Inr metadata \<Rightarrow>
               if truthy (opt_chain metadata ''name'') then
                 Inr (showMessage
                        (success_message (opt_chain metadata ''name'')
                           (if truthy (opt_chain metadata ''id'') then opt_chain metadata ''id''
                            else Some (JStr ''N/A'')))
                        False p)
               else Inl (ReferenceError ''nameInput is not defined'')))"

text \<open>
  The \<^verbatim>\<open>try\<close> block of the submit handler.  \<open>net req k\<close> is what the \<open>k\<close>-th call
  \<^verbatim>\<open>fetch(url, options)\<close> for the request settles with; \<^verbatim>\<open>fetchWithRetry\<close> is called with
  its default \<^verbatim>\<open>maxRetries = 3\<close>.
\<close>

definition submit_try :: "(request \<Rightarrow> nat \<Rightarrow> fetch_outcome) \<Rightarrow> contribute_page \<Rightarrow> error + contribute_page" where
  "submit_try net p =
     (case result (fetchWithRetry (net (submit_request p)) 3) of
        Thrown e \<Rightarrow> Inl e
      | Returned None \<Rightarrow> Inl (cannot_read ''undefined'' ''status'')
      | Returned (Some resp) \<Rightarrow>
          if status resp = 201 then on_created resp p
          else Inl (Error (''Unexpected successful response status: '' @ nat_to_string (status resp))))"

definition failure_message :: "error \<Rightarrow> string" where
  "failure_message e = ''Submission Failed: '' @ message e @ ''. Please try again.''"

definition submit :: "(request \<Rightarrow> nat \<Rightarrow> fetch_outcome) \<Rightarrow> contribute_page \<Rightarrow> contribute_page" where
  \<open>submit net p =
     (let locked = p\<lparr>submitButton_disabled := True,
                      submitButton_innerHTML := ''<i class="fas fa-spinner fa-spin"></i> Submitting...'',
                      messageContainer_className := ''message-container hidden''\<rparr>;
          after = (case submit_try net locked of
                     Inr shown \<Rightarrow> shown
                   | Inl e \<Rightarrow> showMessage (failure_message e) True locked)
      in after\<lparr>submitButton_disabled := False,
               submitButton_innerHTML := ''<i class="fas fa-upload"></i> Submit Artifact''\<rparr>)\<close>

text \<open>What the user is told: the class \<^verbatim>\<open>showMessage\<close> gives the message container.\<close>

definition reports_success :: "contribute_page \<Rightarrow> bool" where
  "reports_success p = (messageContainer_className p = ''message-container success'')"

definition reports_failure :: "contribute_page \<Rightarrow> bool" where
  "reports_failure p = (messageContainer_className p = ''message-container error'')"

section \<open>Catalog page: app.js\<close>

subsection \<open>\<^verbatim>\<open>escapeHtml\<close>\<close>

text \<open>One \<^verbatim>\<open>.replace(/c/g, rep)\<close> pass for a single character \<open>c\<close>.\<close>

definition replace_all :: "char \<Rightarrow> string \<Rightarrow> string \<Rightarrow> string" where
  "replace_all c rep s = concat (map (\<lambda>x. if x = c then rep else [x]) s)"

definition escapeHtml :: "js_value \<Rightarrow> string" where
  "escapeHtml str =
     (case str of
        None \<Rightarrow> []
      | Some JNull \<Rightarrow> []
      | Some v \<Rightarrow>
          replace_all (CHR 0x27) ''&#039;''
            (replace_all (CHR 0x22) ''&quot;''
              (replace_all CHR ''>'' ''&gt;''
                (replace_all CHR ''<'' ''&lt;''
                  (replace_all CHR ''&'' ''&amp;'' (ToString v))))))"

subsection \<open>The page\<close>

text \<open>
  The rating and cost shown for one artifact.  \<open>rating\<close> is the \<^verbatim>\<open>net_score\<close> of the
  rating payload or the string \<^verbatim>\<open>N/A\<close>.
\<close>

record details =
  rating :: json
  cost :: string

text \<open>
  The parts of the document and of the module state that app.js reads and writes.  A card
  is identified with the artifact object it was built from (its \<^verbatim>\<open>_model\<close>); the markup
  inside a card or a modal is not modelled.  \<open>requests\<close> logs the calls of \<^verbatim>\<open>fetch\<close> in
  the order they are issued.  \<open>modelDetailsCache\<close> is the \<^verbatim>\<open>Map\<close> of that name, keyed by
  artifact id; ids are strings or numbers, on which the keys of a \<^verbatim>\<open>Map\<close> are compared
  by value.  \<open>awaiting\<close> holds the card click handlers suspended at
  \<^verbatim>\<open>await fetchModelDetails(...)\<close>, by their artifact.
\<close>

record app_page =
  modelsGrid_innerHTML :: string
  modelsGrid_children :: "json list"
  searchButton_disabled :: bool
  searchButton_innerHTML :: string
  searchButton_originalButtonContent :: "string option"
  searchInput_disabled :: bool
  requests :: "request list"
  modelDetailsCache :: "json \<rightharpoonup> details"
  awaiting :: "json list"
  loading :: "json list"
  modals :: "(json \<times> details) list"
  alerts :: "string list"

type_synonym network = "request \<Rightarrow> fetch_outcome"

text \<open>Assigning \<^verbatim>\<open>modelsGrid.innerHTML\<close> replaces whatever the grid held.\<close>

definition set_grid :: "string \<Rightarrow> app_page \<Rightarrow> app_page" where
  "set_grid html s = s\<lparr>modelsGrid_innerHTML := html, modelsGrid_children := []\<rparr>"

definition issue :: "request \<Rightarrow> app_page \<Rightarrow> app_page" where
  "issue req s = s\<lparr>requests := requests s @ [req]\<rparr>"

definition GET :: "string \<Rightarrow> request" where
  "GET u = \<lparr>req_method = ''GET'', req_url = u, req_body = None\<rparr>"

subsection \<open>\<^verbatim>\<open>fetchModelDetails\<close>\<close>

definition rate_url :: "js_value \<Rightarrow> string" where
  "rate_url ident = API_BASE_URL @ ''/artifact/model/'' @ ToString_value ident @ ''/rate''"

definition cost_url :: "js_value \<Rightarrow> js_value \<Rightarrow> string" where
  "cost_url ident model_type =
     API_BASE_URL @ ''/artifact/'' @ ToString_value model_type @ ''/'' @ ToString_value ident @ ''/cost''"

text \<open>
  The two calls of \<^verbatim>\<open>fetch\<close> in the array handed to \<^verbatim>\<open>Promise.all\<close> (lines 142 and 143), in
  the order they are made.  The function makes both on entry, before it suspends at the
  \<^verbatim>\<open>await\<close>; everything else it does is a function of what these two calls settle with.
\<close>

definition fetchModelDetails_calls :: "js_value \<Rightarrow> js_value \<Rightarrow> request \<times> request" where
  "fetchModelDetails_calls ident model_type = (GET (rate_url ident), GET (cost_url ident model_type))"

text \<open>The requests a call of the function issues: its two calls of \<^verbatim>\<open>fetch\<close>.\<close>

definition fetchModelDetails_requests :: "js_value \<Rightarrow> js_value \<Rightarrow> request list" where
  "fetchModelDetails_requests ident model_type =
     (case fetchModelDetails_calls ident model_type of
        (ratingCall, costCall) \<Rightarrow> [ratingCall, costCall])"

text \<open>
  \<^verbatim>\<open>.then(res => res.json())\<close> on what a call of \<^verbatim>\<open>fetch\<close> settled with: the status is not
  looked at.
\<close>

definition then_json :: "fetch_outcome \<Rightarrow> error + json" where
  "then_json out = (case out of Inl e \<Rightarrow> Inl e | Inr res \<Rightarrow> body_json res)"

text \<open>\<^verbatim>\<open>fetch(url).then(res => res.json())\<close> for a GET of \<open>u\<close> on a given network.\<close>

definition fetch_json :: "network \<Rightarrow> string \<Rightarrow> error + json" where
  "fetch_json net u = then_json (net (GET u))"

fun Object_values :: "json \<Rightarrow> error + json list" where
  "Object_values JNull = Inl (TypeError ''Cannot convert undefined or null to object'')"
| "Object_values (JObj ps) = Inr (map snd ps)"
| "Object_values (JArr xs) = Inr xs"
| "Object_values (JStr s) = Inr (map (\<lambda>c. JStr [c]) s)"
| "Object_values (JBool b) = Inr []"
| "Object_values (JNum n) = Inr []"

text \<open>Index 0 of an array: \<^verbatim>\<open>undefined\<close> when the array is empty.\<close>

fun first :: "json list \<Rightarrow> js_value" where
  "first [] = None"
| "first (v # vs) = Some v"

definition sentinel :: details where
  "sentinel = \<lparr>rating = JStr ''N/A'', cost = ''N/A''\<rparr>"

text \<open>
  The \<^verbatim>\<open>try\<close> block, given what the rating call and the cost call settled with:
  \<^verbatim>\<open>Promise.all\<close> rejects as soon as one of the two promises does.
\<close>

definition fetchModelDetails_try :: "fetch_outcome \<Rightarrow> fetch_outcome \<Rightarrow> error + details" where
  "fetchModelDetails_try ratingFetch costFetch =
     (case then_json ratingFetch of
        Inl e \<Rightarrow> Inl e
      | Inr ratingResponse \<Rightarrow>
          (case then_json costFetch of
             Inl e \<Rightarrow> Inl e
           | Inr costResponse \<Rightarrow>
               (case Object_values costResponse of
                  Inl e \<Rightarrow> Inl e
                | Inr vals \<Rightarrow>
                    Inr \<lparr>rating = nullish (opt_chain (Some ratingResponse) ''net_score'') (JStr ''N/A''),
                         cost = ToString (nullish (opt_chain (first vals) ''total_cost'') (JStr ''N/A''))
                                  @ '' MB''\<rparr>)))"

text \<open>
  The whole function on a network \<open>net\<close>, which says what each request settles with: the
  two calls are answered by the network, and the \<^verbatim>\<open>catch\<close> turns every failure of the
  \<^verbatim>\<open>try\<close> block into the sentinel record.  \<open>Inr\<close> is the value the promise resolves with,
  \<open>Inl\<close> would be a rejection.
\<close>

definition fetchModelDetails :: "network \<Rightarrow> js_value \<Rightarrow> js_value \<Rightarrow> error + details" where
  "fetchModelDetails net ident model_type =
     (case fetchModelDetails_calls ident model_type of
        (ratingCall, costCall) \<Rightarrow>
          (case fetchModelDetails_try (net ratingCall) (net costCall) of
             Inl e \<Rightarrow> Inr sentinel
           | Inr d \<Rightarrow> Inr d))"

subsection \<open>Cards and modals\<close>

text \<open>
  \<^verbatim>\<open>(model.type || 'model').toLowerCase()\<close> throws when \<^verbatim>\<open>model.type\<close> is truthy and not a
  string; nothing else in \<^verbatim>\<open>createModelCard\<close> and \<^verbatim>\<open>openModelModal\<close> throws once
  \<^verbatim>\<open>model\<close> is not \<^verbatim>\<open>null\<close>.
\<close>

fun toLowerCase_throws :: "js_value \<Rightarrow> bool" where
  "toLowerCase_throws (Some (JStr s)) = False"
| "toLowerCase_throws t = truthy t"

definition not_a_function :: error where
  \<open>not_a_function = TypeError ''(model.type || "model").toLowerCase is not a function''\<close>

definition createModelCard :: "json \<Rightarrow> error + json" where
  "createModelCard model =
     (case get_prop (Some model) ''id'' of
        Inl e \<Rightarrow> Inl e
      | Inr i \<Rightarrow>
          if toLowerCase_throws (opt_chain (Some model) ''type'') then Inl not_a_function
          else Inr model)"

definition openModelModal :: "json \<Rightarrow> details \<Rightarrow> app_page \<Rightarrow> error + app_page" where
  "openModelModal model d s =
     (case get_prop (Some model) ''name'' of
        Inl e \<Rightarrow> Inl e
      | Inr n \<Rightarrow>
          if toLowerCase_throws (opt_chain (Some model) ''type'') then Inl not_a_function
          else Inr (s\<lparr>modals := modals s @ [(model, d)]\<rparr>))"

text \<open>The body of \<^verbatim>\<open>artifacts.forEach\<close>: build a card, append it to the grid.\<close>

fun render_cards :: "json list \<Rightarrow> app_page \<Rightarrow> error + app_page" where
  "render_cards [] s = Inr s"
| "render_cards (model # rest) s =
     (case createModelCard model of
        Inl e \<Rightarrow> Inl e
      | Inr placeholderCard \<Rightarrow>
          render_cards rest (s\<lparr>modelsGrid_children := modelsGrid_children s @ [placeholderCard]\<rparr>))"

text \<open>\<^verbatim>\<open>artifacts.length === 0\<close> and \<^verbatim>\<open>artifacts.forEach(...)\<close> on a parsed body.\<close>

fun length_is_zero :: "json \<Rightarrow> error + bool" where
  "length_is_zero JNull = Inl (cannot_read ''null'' ''length'')"
| "length_is_zero (JArr xs) = Inr (xs = [])"
| "length_is_zero (JStr s) = Inr (s = [])"
| "length_is_zero (JObj ps) = Inr (map_of ps ''length'' = Some (JNum ''0''))"
| "length_is_zero v = Inr False"

fun forEach_card :: "json \<Rightarrow> app_page \<Rightarrow> error + app_page" where
  "forEach_card (JArr xs) s = render_cards xs s"
| "forEach_card v s = Inl (TypeError ''artifacts.forEach is not a function'')"

subsection \<open>List flow: \<^verbatim>\<open>init\<close>\<close>

definition list_request :: request where
  "list_request =
     \<lparr>req_method = ''POST'',
      req_url = API_BASE_URL @ ''/artifacts'',
      req_body = Some (JArr [JObj [(''name'', JStr ''*''), (''types'', JArr [])]])\<rparr>"

definition init_try :: "fetch_outcome \<Rightarrow> app_page \<Rightarrow> error + app_page" where
  \<open>init_try out s =
     (case out of
        Inl e \<Rightarrow> Inl e
      | Inr resp \<Rightarrow>
          if \<not> ok resp then
            Inl (Error (''API Request Failed: '' @ nat_to_string (status resp) @ '' '' @ statusText resp))
          else
            (case body_json resp of
               Inl e \<Rightarrow> Inl e
             | Inr artifacts \<Rightarrow>
                 (case length_is_zero artifacts of
                    Inl e \<Rightarrow> Inl e
                  | Inr none \<Rightarrow>
                      if none then
                        Inr (set_grid ''<div class="model-card placeholder">No artifacts found in the registry.</div>'' s)
                      else forEach_card artifacts (set_grid [] s))))\<close>

text \<open>
  The whole of \<^verbatim>\<open>init\<close>, run to its end: \<open>net\<close> is what the one call of \<^verbatim>\<open>fetch\<close>
  settles with.
\<close>

definition init :: "network \<Rightarrow> app_page \<Rightarrow> app_page" where
  \<open>init net s =
     (let fetching =
            issue list_request
              (set_grid ''<div class="model-card placeholder">Fetching core artifact list...</div>'' s)
      in case init_try (net list_request) fetching of
           Inr rendered \<Rightarrow> rendered
         | Inl e \<Rightarrow>
             set_grid
               (''<div class="model-card placeholder" style="background-color: var(--danger-color); color: white;">Error: ''
                  @ message e @ ''. Check your API_BASE_URL.</div>'')
               fetching)\<close>

subsection \<open>Search flow: \<^verbatim>\<open>searchArtifacts\<close>\<close>

definition search_request :: "string \<Rightarrow> request" where
  "search_request query =
     \<lparr>req_method = ''POST'',
      req_url = API_BASE_URL @ ''/artifact/byRegEx'',
      req_body = Some (JObj [(''regex'', JStr query)])\<rparr>"

definition no_matches_html :: "string \<Rightarrow> string" where
  \<open>no_matches_html query =
     ''<div class="model-card placeholder">No artifacts found matching: <strong>''
       @ escapeHtml (Some (JStr query)) @ ''</strong>.</div>''\<close>

definition search_error_html :: string where
  \<open>search_error_html =
     ''<div class="model-card placeholder" style="background-color: var(--danger-color); color: white;">Search Error: Invalid Query Input</div>''\<close>

definition search_try :: "string \<Rightarrow> fetch_outcome \<Rightarrow> app_page \<Rightarrow> error + app_page" where
  "search_try query out s =
     (case out of
        Inl e \<Rightarrow> Inl e
      | Inr resp \<Rightarrow>
          if \<not> ok resp then
            (if status resp = 404 then Inr (set_grid (no_matches_html query) s)
             else Inl (Error (''Search API Request Failed: '' @ nat_to_string (status resp)
                               @ '' '' @ statusText resp)))
          else
            (case body_json resp of
               Inl e \<Rightarrow> Inl e
             | Inr artifacts \<Rightarrow>
                 (case length_is_zero artifacts of
                    Inl e \<Rightarrow> Inl e
                  | Inr none \<Rightarrow>
                      if none then Inr (set_grid (no_matches_html query) s)
                      else forEach_card artifacts (set_grid [] s))))"

text \<open>\<^verbatim>\<open>!query || query.trim() === ''\<close> for a string \<open>query\<close>.\<close>

definition blank :: "string \<Rightarrow> bool" where
  "blank query = (query = [] \<or> trim query = [])"

text \<open>
  The whole of \<^verbatim>\<open>searchArtifacts\<close>, run to its end.  In the blank branch \<^verbatim>\<open>init()\<close> is
  called and not awaited; nothing of \<^verbatim>\<open>searchArtifacts\<close> runs after it, so the page ends
  as \<^verbatim>\<open>init\<close> leaves it.
\<close>

definition search_label :: string where
  \<open>search_label = ''<i class="fas fa-search"></i> Search''\<close>

definition searchArtifacts :: "string \<Rightarrow> network \<Rightarrow> app_page \<Rightarrow> app_page" where
  \<open>searchArtifacts query net s =
     (if blank query then
        init net
          (s\<lparr>searchButton_disabled := False,
             searchInput_disabled := False,
             searchButton_innerHTML :=
               (case searchButton_originalButtonContent s of
                  None \<Rightarrow> search_label
                | Some c \<Rightarrow> if c = [] then search_label else c)\<rparr>)
      else
        (let originalButtonContent = searchButton_innerHTML s;
             searching =
               issue (search_request query)
                 ((set_grid ''<div class="model-card placeholder"><i class="fas fa-spinner fa-spin"></i> Searching artifacts...</div>''
                     (s\<lparr>searchButton_disabled := True, searchInput_disabled := True\<rparr>))
                  \<lparr>searchButton_innerHTML := ''<i class="fas fa-spinner fa-spin"></i> Searching''\<rparr>);
             settled =
               (case search_try query (net (search_request query)) searching of
                  Inr rendered \<Rightarrow> rendered
                | Inl e \<Rightarrow> set_grid search_error_html searching)
         in settled\<lparr>searchButton_disabled := False,
                    searchInput_disabled := False,
                    searchButton_innerHTML := originalButtonContent\<rparr>))\<close>

text \<open>The calls to the regex-search endpoint among the requests a page has issued.\<close>

definition regex_search_requests :: "app_page \<Rightarrow> request list" where
  "regex_search_requests s =
     filter (\<lambda>r. req_url r = API_BASE_URL @ ''/artifact/byRegEx'') (requests s)"

subsection \<open>Detail on demand: the click handler of a card\<close>

definition fetch_failed_alert :: string where
  "fetch_failed_alert = ''Failed to load artifact details. See console for details.''"

text \<open>
  The handler up to its first suspension.  On a cache miss it marks the card as loading and
  enters \<^verbatim>\<open>fetchModelDetails\<close>, which issues its two requests before the handler suspends.
  An exception outside the handler's \<^verbatim>\<open>try\<close> leaves the page as it is.
\<close>

definition card_click :: "json \<Rightarrow> app_page \<Rightarrow> app_page" where
  "card_click model s =
     (case get_prop (Some model) ''id'' of
        Inl e \<Rightarrow> s
      | Inr ident \<Rightarrow>
          (case ident of
             None \<Rightarrow> s\<lparr>alerts := alerts s @ [''Model ID not available for this artifact.'']\<rparr>
           | Some k \<Rightarrow>
               if \<not> truthy (Some k) then
                 s\<lparr>alerts := alerts s @ [''Model ID not available for this artifact.'']\<rparr>
               else
                 (case modelDetailsCache s k of
                    Some cached \<Rightarrow>
                      (case openModelModal model cached s of Inr opened \<Rightarrow> opened | Inl e \<Rightarrow> s)
                  | None \<Rightarrow>
                      s\<lparr>loading := List.insert model (loading s),
                        requests := requests s
                          @ fetchModelDetails_requests (Some k) (opt_chain (Some model) ''type''),
                        awaiting := awaiting s @ [model]\<rparr>)))"

text \<open>
  The rest of the handler, once the promise of \<^verbatim>\<open>fetchModelDetails\<close> has settled; \<open>net\<close>
  is what its two requests settled with.
\<close>

definition card_resume :: "json \<Rightarrow> network \<Rightarrow> app_page \<Rightarrow> app_page" where
  "card_resume model net s =
     (case opt_chain (Some model) ''id'' of
        None \<Rightarrow> s
      | Some k \<Rightarrow>
          (let after =
                 (case fetchModelDetails net (Some k) (opt_chain (Some model) ''type'') of
                    Inl e \<Rightarrow> s\<lparr>alerts := alerts s @ [fetch_failed_alert]\<rparr>
                  | Inr d \<Rightarrow>
                      (let stored = s\<lparr>modelDetailsCache := (modelDetailsCache s)(k \<mapsto> d)\<rparr>
                       in case openModelModal model d stored of
                            Inr opened \<Rightarrow> opened
                          | Inl e \<Rightarrow> stored\<lparr>alerts := alerts stored @ [fetch_failed_alert]\<rparr>))
           in after\<lparr>loading := removeAll model (loading after)\<rparr>))"

text \<open>
  The page is driven by one cooperative thread: a click runs its handler up to the
  \<^verbatim>\<open>await\<close>, and a suspended handler resumes when its fetch settles.  Any interleaving of
  clicks and settlements is a list of events.  \<open>Click model\<close> is a click on the card of
  \<open>model\<close> outside its Details button; \<open>Settle model net\<close> resumes the oldest suspended
  handler of that card, \<open>net\<close> being what its two requests settled with.
\<close>

datatype event = Click json | Settle json network

fun step :: "event \<Rightarrow> app_page \<Rightarrow> app_page" where
  "step (Click model) s = card_click model s"
| "step (Settle model net) s =
     (if model \<in> set (awaiting s)
      then card_resume model net (s\<lparr>awaiting := remove1 model (awaiting s)\<rparr>)
      else s)"

fun run :: "event list \<Rightarrow> app_page \<Rightarrow> app_page" where
  "run [] s = s"
| "run (e # es) s = run es (step e s)"

text \<open>The sub-fetch sequences started for an artifact: one per rating request in the log.\<close>

definition sub_fetch_sequences :: "json \<Rightarrow> app_page \<Rightarrow> nat" where
  "sub_fetch_sequences k s = length (filter (\<lambda>r. r = GET (rate_url (Some k))) (requests s))"

definition fresh_page :: app_page where
  \<open>fresh_page =
     \<lparr>modelsGrid_innerHTML = [],
      modelsGrid_children = [],
      searchButton_disabled = False,
      searchButton_innerHTML = search_label,
      searchButton_originalButtonContent = None,
      searchInput_disabled = False,
      requests = [],
      modelDetailsCache = Map.empty,
      awaiting = [],
      loading = [],
      modals = [],
      alerts = []\<rparr>\<close>

section \<open>Example inputs\<close>

text \<open>A response with a plain-text body (reading it as JSON fails).\<close>

definition plain_response :: "nat \<Rightarrow> string \<Rightarrow> response" where
  "plain_response st b =
     \<lparr>status = st, statusText = [], body_text = Inr b,
      body_json = Inl (Error ''Unexpected token in JSON'')\<rparr>"

definition responses_500_500_201 :: "nat \<Rightarrow> fetch_outcome" where
  "responses_500_500_201 k = Inr (plain_response (if k < 2 then 500 else 201) [])"

definition always_503 :: "nat \<Rightarrow> fetch_outcome" where
  "always_503 k = Inr (plain_response 503 [])"

definition responses_409_201 :: "nat \<Rightarrow> fetch_outcome" where
  "responses_409_201 k = Inr (plain_response (if k = 0 then 409 else 201) ''Artifact exists'')"

text \<open>A response with a JSON body.\<close>

definition json_response :: "nat \<Rightarrow> json \<Rightarrow> response" where
  "json_response st v =
     \<lparr>status = st, statusText = [], body_text = Inl (Error ''body stream already read''),
      body_json = Inr v\<rparr>"

text \<open>The submission form, filled in, and four registries answering it.\<close>

definition example_form :: contribute_page where
  "example_form =
     \<lparr>typeSelect_value = ''model'',
      urlInput_value = ''https://huggingface.co/google-bert/bert-base-uncased '',
      submitButton_disabled = False,
      submitButton_innerHTML = [],
      messageContainer_textContent = [],
      messageContainer_className = ''message-container hidden''\<rparr>"

definition created_plain :: "request \<Rightarrow> nat \<Rightarrow> fetch_outcome" where
  "created_plain req k = Inr (plain_response 201 ''Created'')"

definition accepted_202 :: "request \<Rightarrow> nat \<Rightarrow> fetch_outcome" where
  "accepted_202 req k = Inr (json_response 202 (JObj []))"

definition created_bert :: "request \<Rightarrow> nat \<Rightarrow> fetch_outcome" where
  "created_bert req k =
     Inr (json_response 201
            (JObj [(''metadata'', JObj [(''name'', JStr ''bert''), (''id'', JStr ''42'')])]))"

definition created_unnamed :: "request \<Rightarrow> nat \<Rightarrow> fetch_outcome" where
  "created_unnamed req k =
     Inr (json_response 201 (JObj [(''metadata'', JObj [(''id'', JStr ''42'')])]))"

text \<open>An artifact id, two artifact types and the payloads of the two detail endpoints.\<close>

definition a1 :: js_value where
  "a1 = Some (JStr ''a1'')"

definition type_model :: js_value where
  "type_model = Some (JStr ''model'')"

definition type_dataset :: js_value where
  "type_dataset = Some (JStr ''dataset'')"

definition rating_payload :: json where
  "rating_payload = JObj [(''net_score'', JNum ''0.8''), (''license'', JNum ''1'')]"

definition cost_payload :: json where
  "cost_payload = JObj [(''a1'', JObj [(''total_cost'', JNum ''12.5'')])]"

text \<open>A network answering the rating request with \<open>r\<close>, every other request with \<open>c\<close>.\<close>

definition answers :: "fetch_outcome \<Rightarrow> fetch_outcome \<Rightarrow> network" where
  "answers r c req = (if req = GET (rate_url a1) then r else c)"

definition failed_to_fetch :: fetch_outcome where
  "failed_to_fetch = Inl (TypeError ''Failed to fetch'')"

text \<open>Networks for the search and list flows.\<close>

definition not_found :: network where
  "not_found req = Inr (plain_response 404 ''No artifact found under this regex.'')"

definition server_error :: network where
  "server_error req = Inr (plain_response 500 ''Internal Server Error'')"

definition offline :: network where
  "offline req = Inl (TypeError ''Failed to fetch'')"

definition two_artifacts :: network where
  "two_artifacts req =
     Inr (json_response 200
       (JArr [JObj [(''name'', JStr ''bert''), (''id'', JStr ''a1''), (''type'', JStr ''model'')],
              JObj [(''name'', JStr ''squad''), (''id'', JStr ''a2''), (''type'', JStr ''dataset'')]]))"

text \<open>A listed artifact, networks for its detail requests, and a page that has cached it.\<close>

definition bert_model :: json where
  "bert_model = JObj [(''name'', JStr ''bert''), (''id'', JStr ''a1''), (''type'', JStr ''model'')]"

definition all_up :: network where
  "all_up = answers (Inr (json_response 200 rating_payload)) (Inr (json_response 200 cost_payload))"

text \<open>
  A network that answers at two addresses only: the rating endpoint of \<^verbatim>\<open>a1\<close> under the
  path segment \<^verbatim>\<open>model\<close>, and the cost endpoint of \<^verbatim>\<open>a1\<close> as a dataset.
\<close>

definition detail_endpoints :: network where
  "detail_endpoints req =
     (if req = \<lparr>req_method = ''GET'',
                   req_url = ''https://moy7eewxxe.execute-api.us-east-2.amazonaws.com/main/artifact/model/a1/rate'',
                   req_body = None\<rparr>
      then Inr (json_response 200 rating_payload)
      else if req = \<lparr>req_method = ''GET'',
                        req_url = ''https://moy7eewxxe.execute-api.us-east-2.amazonaws.com/main/artifact/dataset/a1/cost'',
                        req_body = None\<rparr>
      then Inr (json_response 200 cost_payload)
      else Inl (TypeError ''Failed to fetch''))"

definition warm_page :: app_page where
  "warm_page = run [Click bert_model, Settle bert_model all_up] fresh_page"

section \<open>Retry policy: what \<^verbatim>\<open>fetchWithRetry\<close> does\<close>

lemma transient_fails:
  "transient out \<Longrightarrow> attempt_try out = Inl (transient_error out)"
  by (auto simp: transient_def attempt_try_def transient_error_def split: sum.splits)

lemma loop_all_fail:
  "attempt < maxRetries \<Longrightarrow>
   (\<And>k. attempt \<le> k \<Longrightarrow> k < maxRetries \<Longrightarrow> attempt_try (env k) = Inl (err k)) \<Longrightarrow>
   fetchWithRetry_loop env maxRetries attempt slept =
     \<lparr>result = Thrown (err (maxRetries - 1)),
      delays = slept @ map (\<lambda>k. 2 ^ k * 1000) [attempt..<maxRetries - 1],
      attempts = maxRetries\<rparr>"
proof (induction env maxRetries attempt slept rule: fetchWithRetry_loop.induct)
  case (1 env maxRetries attempt slept)
  have here: "attempt_try (env attempt) = Inl (err attempt)"
    using "1.prems" by simp
  show ?case
  proof (cases "attempt = maxRetries - 1")
    case True
    then show ?thesis
      using "1.prems"(1) here by (subst fetchWithRetry_loop.simps) simp
  next
    case False
    then have next_lt: "attempt + 1 < maxRetries"
      using "1.prems"(1) by simp
    have ih: "fetchWithRetry_loop env maxRetries (attempt + 1) (slept @ [2 ^ attempt * 1000]) =
      \<lparr>result = Thrown (err (maxRetries - 1)),
       delays = (slept @ [2 ^ attempt * 1000]) @ map (\<lambda>k. 2 ^ k * 1000) [attempt + 1..<maxRetries - 1],
       attempts = maxRetries\<rparr>"
      using "1.IH"[OF "1.prems"(1) here False next_lt] "1.prems"(2) by simp
    have split: "[attempt..<maxRetries - 1] = attempt # [attempt + 1..<maxRetries - 1]"
      using next_lt by (simp add: upt_conv_Cons)
    show ?thesis
      using "1.prems"(1) here False ih split by (subst fetchWithRetry_loop.simps) simp
  qed
qed

lemma loop_first_success:
  "attempt \<le> j \<Longrightarrow> j < maxRetries \<Longrightarrow>
   (\<And>k. attempt \<le> k \<Longrightarrow> k < j \<Longrightarrow> attempt_try (env k) = Inl (err k)) \<Longrightarrow>
   attempt_try (env j) = Inr r \<Longrightarrow>
   fetchWithRetry_loop env maxRetries attempt slept =
     \<lparr>result = Returned (Some r),
      delays = slept @ map (\<lambda>k. 2 ^ k * 1000) [attempt..<j],
      attempts = j + 1\<rparr>"
proof (induction env maxRetries attempt slept rule: fetchWithRetry_loop.induct)
  case (1 env maxRetries attempt slept)
  show ?case
  proof (cases "attempt = j")
    case True
    then show ?thesis
      using "1.prems" by (subst fetchWithRetry_loop.simps) simp
  next
    case False
    then have lt: "attempt < j" using "1.prems"(1) by simp
    have here: "attempt_try (env attempt) = Inl (err attempt)"
      using "1.prems"(3) lt by simp
    have notlast: "attempt \<noteq> maxRetries - 1" and inrange: "attempt < maxRetries"
      using lt "1.prems"(2) by simp_all
    have ih: "fetchWithRetry_loop env maxRetries (attempt + 1) (slept @ [2 ^ attempt * 1000]) =
      \<lparr>result = Returned (Some r),
       delays = (slept @ [2 ^ attempt * 1000]) @ map (\<lambda>k. 2 ^ k * 1000) [attempt + 1..<j],
       attempts = j + 1\<rparr>"
      using "1.IH"[OF inrange here notlast] lt "1.prems" by simp
    have split: "[attempt..<j] = attempt # [attempt + 1..<j]"
      using lt by (simp add: upt_conv_Cons)
    show ?thesis
      using inrange here notlast ih split by (subst fetchWithRetry_loop.simps) simp
  qed
qed

lemma ok_succeeds: "ok r \<Longrightarrow> attempt_try (Inr r) = Inr r"
  by (simp add: attempt_try_def)

text \<open>
  C4.  For every \<open>maxAttempts \<ge> 1\<close>: when every attempt ends in a transient outcome (a
  transport failure, or a status that is neither 2xx nor in the terminal set),
  \<^verbatim>\<open>fetchWithRetry\<close> makes exactly \<open>maxAttempts\<close> attempts, indices \<open>0 .. maxAttempts - 1\<close>,
  sleeps \<open>2^k * 1000\<close> ms after failed attempt \<open>k\<close> before the retry, and throws the error of
  the last attempt; when transient outcomes are followed by a 2xx response at attempt \<open>j\<close>,
  it returns that response after the delays of attempts \<open>0 .. j - 1\<close>.  In particular, with
  three attempts and statuses 500, 500, 201 it returns the third response after exactly
  two delays, 1000 ms and 2000 ms.
\<close>

theorem fetchWithRetry_transient_schedule:
  assumes "1 \<le> maxAttempts"
  shows
    "((\<forall>k<maxAttempts. transient (env k)) \<longrightarrow>
        fetchWithRetry env maxAttempts =
          \<lparr>result = Thrown (transient_error (env (maxAttempts - 1))),
           delays = map (\<lambda>k. 2 ^ k * 1000) [0..<maxAttempts - 1],
           attempts = maxAttempts\<rparr>)
     \<and> (\<forall>j r. j < maxAttempts \<and> (\<forall>k<j. transient (env k)) \<and> env j = Inr r \<and> ok r \<longrightarrow>
        fetchWithRetry env maxAttempts =
          \<lparr>result = Returned (Some r),
           delays = map (\<lambda>k. 2 ^ k * 1000) [0..<j],
           attempts = j + 1\<rparr>)
     \<and> (\<forall>r0 r1 r2. maxAttempts = 3 \<and> env 0 = Inr r0 \<and> env 1 = Inr r1 \<and> env 2 = Inr r2
            \<and> status r0 = 500 \<and> status r1 = 500 \<and> status r2 = 201 \<longrightarrow>
        fetchWithRetry env maxAttempts =
          \<lparr>result = Returned (Some r2), delays = [1000, 2000], attempts = 3\<rparr>)"
proof (intro conjI allI impI)
  assume all: "\<forall>k<maxAttempts. transient (env k)"
  have "fetchWithRetry_loop env maxAttempts 0 [] =
          \<lparr>result = Thrown (transient_error (env (maxAttempts - 1))),
           delays = [] @ map (\<lambda>k. 2 ^ k * 1000) [0..<maxAttempts - 1],
           attempts = maxAttempts\<rparr>"
    using assms all
    by (intro loop_all_fail [where err = "\<lambda>k. transient_error (env k)"]) (simp_all add: transient_fails)
  then show "fetchWithRetry env maxAttempts =
          \<lparr>result = Thrown (transient_error (env (maxAttempts - 1))),
           delays = map (\<lambda>k. 2 ^ k * 1000) [0..<maxAttempts - 1],
           attempts = maxAttempts\<rparr>"
    by (simp add: fetchWithRetry_def)
next
  fix j r
  assume h: "j < maxAttempts \<and> (\<forall>k<j. transient (env k)) \<and> env j = Inr r \<and> ok r"
  have "fetchWithRetry_loop env maxAttempts 0 [] =
          \<lparr>result = Returned (Some r),
           delays = [] @ map (\<lambda>k. 2 ^ k * 1000) [0..<j],
           attempts = j + 1\<rparr>"
    using h
    by (intro loop_first_success [where err = "\<lambda>k. transient_error (env k)"])
       (simp_all add: transient_fails ok_succeeds)
  then show "fetchWithRetry env maxAttempts =
          \<lparr>result = Returned (Some r),
           delays = map (\<lambda>k. 2 ^ k * 1000) [0..<j],
           attempts = j + 1\<rparr>"
    by (simp add: fetchWithRetry_def)
next
  fix r0 r1 r2
  assume h: "maxAttempts = 3 \<and> env 0 = Inr r0 \<and> env 1 = Inr r1 \<and> env 2 = Inr r2
            \<and> status r0 = 500 \<and> status r1 = 500 \<and> status r2 = 201"
  have t: "\<And>k. k < 2 \<Longrightarrow> attempt_try (env k) = Inl (transient_error (env k))"
  proof -
    fix k :: nat
    assume "k < 2"
    then have "k = 0 \<or> k = 1" by auto
    then have "transient (env k)"
      using h by (auto simp: transient_def ok_def terminal_status_def)
    then show "attempt_try (env k) = Inl (transient_error (env k))"
      by (rule transient_fails)
  qed
  have s: "attempt_try (env 2) = Inr r2"
    using h by (simp add: ok_succeeds ok_def)
  have "fetchWithRetry_loop env 3 0 [] =
          \<lparr>result = Returned (Some r2),
           delays = [] @ map (\<lambda>k. 2 ^ k * 1000) [0..<2],
           attempts = 2 + 1\<rparr>"
    using t s by (intro loop_first_success [where err = "\<lambda>k. transient_error (env k)"]) simp_all
  moreover have "[0..<2] = [0, Suc 0]"
    by (simp add: upt_conv_Cons)
  ultimately show "fetchWithRetry env maxAttempts =
          \<lparr>result = Returned (Some r2), delays = [1000, 2000], attempts = 3\<rparr>"
    using h by (simp add: fetchWithRetry_def)
qed

lemma nat_to_string_503: "nat_to_string 503 = ''503''"
  by code_simp

theorem fetchWithRetry_transient_schedule_witness:
  "(1::nat) \<le> 3
   \<and> transient (always_503 0) \<and> transient (always_503 1) \<and> transient (always_503 2)
   \<and> fetchWithRetry always_503 3 =
       \<lparr>result = Thrown (Error ''HTTP Error: 503 ''), delays = [1000, 2000], attempts = 3\<rparr>
   \<and> fetchWithRetry responses_500_500_201 3 =
       \<lparr>result = Returned (Some (plain_response 201 [])), delays = [1000, 2000], attempts = 3\<rparr>"
proof -
  have one: "(1::nat) \<le> 3" by simp
  have tr: "\<forall>k<3. transient (always_503 k)"
    by (simp add: transient_def always_503_def plain_response_def ok_def terminal_status_def)
  have tr3: "transient (always_503 0) \<and> transient (always_503 1) \<and> transient (always_503 2)"
    using tr by simp
  have up: "[0..<2] = [0, Suc 0]"
    by (simp add: upt_conv_Cons)
  have a: "fetchWithRetry always_503 3 =
       \<lparr>result = Thrown (Error ''HTTP Error: 503 ''), delays = [1000, 2000], attempts = 3\<rparr>"
    using fetchWithRetry_transient_schedule [OF one, of always_503] tr up
    by (simp add: transient_error_def always_503_def plain_response_def nat_to_string_503)
  have b: "fetchWithRetry responses_500_500_201 3 =
       \<lparr>result = Returned (Some (plain_response 201 [])), delays = [1000, 2000], attempts = 3\<rparr>"
    using fetchWithRetry_transient_schedule [OF one, of responses_500_500_201]
    by (simp add: responses_500_500_201_def plain_response_def)
  show ?thesis using one tr3 a b by simp
qed

text \<open>
  C1.  The claim is that a status in the terminal set ends the call at once, with no delay
  and no further attempt.  The \<^verbatim>\<open>throw\<close> for a terminal status sits inside the \<^verbatim>\<open>try\<close>
  whose \<^verbatim>\<open>catch\<close> sleeps and retries, so with attempts left the error is swallowed: on a
  409 followed by a 201 the call sleeps 1000 ms, makes a second attempt and returns the
  201 response.  Only on the last attempt does the terminal error leave the call.
\<close>

theorem fetchWithRetry_retries_terminal_status:
  "attempt_try (responses_409_201 0) = Inl (Error ''API Error (409): Artifact exists'')
   \<and> fetchWithRetry responses_409_201 3 =
       \<lparr>result = Returned (Some (plain_response 201 ''Artifact exists'')),
        delays = [1000], attempts = 2\<rparr>
   \<and> fetchWithRetry responses_409_201 1 =
       \<lparr>result = Thrown (Error ''API Error (409): Artifact exists''),
        delays = [], attempts = 1\<rparr>"
  by code_simp

section \<open>Submission handler: what the user is told\<close>

lemma submit_request_locked:
  "submit_request (p\<lparr>submitButton_disabled := a, submitButton_innerHTML := b,
                     messageContainer_className := c\<rparr>) = submit_request p"
  by (simp add: submit_request_def)

text \<open>
  C10 (amended).  Once \<^verbatim>\<open>fetchWithRetry\<close> has resolved with a response, the handler
  reports success only if the status is exactly 201; any other status it resolves with
  (200, 202, ...) is reported as a failure, with the message
  \<^verbatim>\<open>Unexpected successful response status: <status>\<close>.  A 201 is reported as a success
  when the body parses as JSON and its \<^verbatim>\<open>metadata.name\<close> is truthy; a 201 whose body is
  not JSON is reported as a failure.
\<close>

theorem submit_reports_by_status:
  assumes "result (fetchWithRetry (net (submit_request p)) 3) = Returned (Some resp)"
  shows
    "(reports_success (submit net p) \<longrightarrow> status resp = 201)
     \<and> (status resp \<noteq> 201 \<longrightarrow>
          reports_failure (submit net p)
          \<and> messageContainer_textContent (submit net p) =
              ''Submission Failed: Unexpected successful response status: ''
                @ nat_to_string (status resp) @ ''. Please try again.'')
     \<and> (\<forall>e. status resp = 201 \<and> body_json resp = Inl e \<longrightarrow> reports_failure (submit net p))
     \<and> (\<forall>res metadata.
          status resp = 201 \<and> body_json resp = Inr res
          \<and> get_prop (Some res) ''metadata'' = Inr metadata
          \<and> truthy (opt_chain metadata ''name'') \<longrightarrow>
          reports_success (submit net p)
          \<and> messageContainer_textContent (submit net p) =
              success_message (opt_chain metadata ''name'')
                (if truthy (opt_chain metadata ''id'') then opt_chain metadata ''id''
                 else Some (JStr ''N/A'')))"
  using assms
  by (auto simp: submit_def submit_try_def on_created_def showMessage_def reports_success_def
        reports_failure_def failure_message_def submit_request_locked Let_def
      split: sum.splits)

lemma nat_to_string_202: "nat_to_string 202 = ''202''"
  by code_simp

lemma accepted_resolves:
  "result (fetchWithRetry (accepted_202 (submit_request example_form)) 3)
     = Returned (Some (json_response 202 (JObj [])))"
  by code_simp

lemma created_resolves:
  "result (fetchWithRetry (created_bert (submit_request example_form)) 3)
     = Returned (Some (json_response 201
         (JObj [(''metadata'', JObj [(''name'', JStr ''bert''), (''id'', JStr ''42'')])])))"
  by code_simp

theorem submit_reports_by_status_witness:
  "reports_failure (submit accepted_202 example_form)
   \<and> messageContainer_textContent (submit accepted_202 example_form) =
       ''Submission Failed: Unexpected successful response status: 202. Please try again.''
   \<and> reports_success (submit created_bert example_form)
   \<and> messageContainer_textContent (submit created_bert example_form) =
       success_message (Some (JStr ''bert'')) (Some (JStr ''42''))"
  using submit_reports_by_status
          [of accepted_202 example_form "json_response 202 (JObj [])", OF accepted_resolves]
        submit_reports_by_status
          [of created_bert example_form
              "json_response 201
                 (JObj [(''metadata'', JObj [(''name'', JStr ''bert''), (''id'', JStr ''42'')])])",
           OF created_resolves]
  by (simp add: json_response_def nat_to_string_202)

text \<open>
  The claim as stated, success if and only if the status is 201, fails from right to left:
  a 201 whose body cannot be read as JSON ends in the failure message.
\<close>

theorem created_with_unreadable_body_reports_failure:
  "result (fetchWithRetry (created_plain (submit_request example_form)) 3)
     = Returned (Some (plain_response 201 ''Created''))
   \<and> status (plain_response 201 ''Created'') = 201
   \<and> \<not> reports_success (submit created_plain example_form)
   \<and> reports_failure (submit created_plain example_form)"
  by code_simp

text \<open>
  A 201 whose JSON body has no \<^verbatim>\<open>metadata.name\<close> reaches the undeclared \<^verbatim>\<open>nameInput\<close> and
  is reported as a failure as well.
\<close>

lemma created_without_name_reports_failure:
  "messageContainer_textContent (submit created_unnamed example_form)
     = ''Submission Failed: nameInput is not defined. Please try again.''
   \<and> reports_failure (submit created_unnamed example_form)"
  by code_simp

section \<open>Fan-out fetcher: \<^verbatim>\<open>fetchModelDetails\<close>\<close>

lemma fetchModelDetails_total: "\<exists>d. fetchModelDetails net ident t = Inr d"
  by (simp add: fetchModelDetails_def fetchModelDetails_calls_def split: sum.splits)

lemma fetchModelDetails_sentinel:
  "fetch_json net (rate_url ident) = Inl e \<or> fetch_json net (cost_url ident t) = Inl e \<Longrightarrow>
   fetchModelDetails net ident t = Inr sentinel"
  by (auto simp: fetchModelDetails_def fetchModelDetails_calls_def fetchModelDetails_try_def
        fetch_json_def split: sum.splits)

text \<open>
  C5 (amended).  \<^verbatim>\<open>fetchModelDetails\<close> never rejects, and if either sub-request throws (the
  \<^verbatim>\<open>fetch\<close> fails, or the body is not JSON) it resolves with the all-sentinel record
  \<^verbatim>\<open>{rating: "N/A", cost: "N/A"}\<close>: when exactly one of the two sub-fetches throws, no
  partial record is returned.  A payload that merely lacks its field is not among the
  failures: it does not throw.
\<close>

theorem fetchModelDetails_swallows_rejections:
  "(\<exists>d. fetchModelDetails net ident model_type = Inr d)
   \<and> (\<forall>e r. net (GET (rate_url ident)) = Inl e
            \<or> (net (GET (rate_url ident)) = Inr r \<and> body_json r = Inl e)
            \<or> net (GET (cost_url ident model_type)) = Inl e
            \<or> (net (GET (cost_url ident model_type)) = Inr r \<and> body_json r = Inl e)
          \<longrightarrow> fetchModelDetails net ident model_type = Inr sentinel)"
  by (auto simp: fetchModelDetails_def fetchModelDetails_calls_def fetchModelDetails_try_def
        then_json_def split: sum.splits)

theorem fetchModelDetails_swallows_rejections_witness:
  "fetchModelDetails (answers failed_to_fetch (Inr (json_response 200 cost_payload))) a1 type_model
     = Inr sentinel
   \<and> fetchModelDetails (answers (Inr (json_response 200 rating_payload))
        (Inr (plain_response 502 ''Bad Gateway''))) a1 type_dataset = Inr sentinel"
proof -
  have rate_down: "answers failed_to_fetch (Inr (json_response 200 cost_payload)) (GET (rate_url a1))
      = Inl (TypeError ''Failed to fetch'')"
    by (simp add: answers_def failed_to_fetch_def)
  have cost_bad: "answers (Inr (json_response 200 rating_payload))
        (Inr (plain_response 502 ''Bad Gateway'')) (GET (cost_url a1 type_dataset))
      = Inr (plain_response 502 ''Bad Gateway'')
      \<and> body_json (plain_response 502 ''Bad Gateway'') = Inl (Error ''Unexpected token in JSON'')"
    by (simp add: answers_def GET_def rate_url_def cost_url_def plain_response_def)
  show ?thesis
    using fetchModelDetails_swallows_rejections
            [of "answers failed_to_fetch (Inr (json_response 200 cost_payload))" a1 type_model]
          fetchModelDetails_swallows_rejections
            [of "answers (Inr (json_response 200 rating_payload))
                   (Inr (plain_response 502 ''Bad Gateway''))" a1 type_dataset]
          rate_down cost_bad
    by blast
qed

text \<open>
  The claim counts a missing field among the failures that give the all-sentinel record.
  A rating payload without \<^verbatim>\<open>net_score\<close> does not throw: \<^verbatim>\<open>?.\<close> and \<^verbatim>\<open>??\<close> turn it into
  the rating \<^verbatim>\<open>N/A\<close>, next to the real cost, which is a partial record.
\<close>

theorem missing_net_score_gives_partial_record:
  "opt_chain (Some (JObj [])) ''net_score'' = None
   \<and> fetchModelDetails (answers (Inr (json_response 200 (JObj [])))
        (Inr (json_response 200 cost_payload))) a1 type_model
       = Inr \<lparr>rating = JStr ''N/A'', cost = ''12.5 MB''\<rparr>
   \<and> fetchModelDetails (answers (Inr (json_response 200 (JObj [])))
        (Inr (json_response 200 cost_payload))) a1 type_model \<noteq> Inr sentinel"
  by code_simp

text \<open>
  C6.  The claim is that the cost field is the sentinel \<^verbatim>\<open>N/A\<close> whenever the first entry of
  the cost payload is absent or its \<^verbatim>\<open>total_cost\<close> is not a number.  The suffix is appended
  to whatever \<^verbatim>\<open>??\<close> produced, the sentinel included: a cost payload with no entry gives
  the cost \<^verbatim>\<open>N/A MB\<close>, and a \<^verbatim>\<open>total_cost\<close> that is a string is rendered as it is.
\<close>

theorem missing_total_cost_renders_with_suffix:
  "fetchModelDetails (answers (Inr (json_response 200 rating_payload))
        (Inr (json_response 200 (JObj [])))) a1 type_model
       = Inr \<lparr>rating = JNum ''0.8'', cost = ''N/A MB''\<rparr>
   \<and> fetchModelDetails (answers (Inr (json_response 200 rating_payload))
        (Inr (json_response 200 (JObj [(''a1'', JObj [(''total_cost'', JStr ''free'')])])))) a1 type_model
       = Inr \<lparr>rating = JNum ''0.8'', cost = ''free MB''\<rparr>"
  by code_simp

text \<open>The numeric case of the cost field does get the number followed by the suffix.\<close>

lemma numeric_total_cost_gets_suffix:
  assumes "fetch_json net (rate_url ident) = Inr ratingResponse"
    and "fetch_json net (cost_url ident t) = Inr costResponse"
    and "Object_values costResponse = Inr (JObj ps # others)"
    and "map_of ps ''total_cost'' = Some (JNum n)"
  shows "\<exists>d. fetchModelDetails net ident t = Inr d \<and> cost d = n @ '' MB''"
  using assms
  by (simp add: fetchModelDetails_def fetchModelDetails_calls_def fetchModelDetails_try_def
        fetch_json_def)

text \<open>
  C9.  For every artifact id and every type \<open>t\<close>, \<^verbatim>\<open>fetchModelDetails\<close> issues two requests:
  a GET of \<^verbatim>\<open>/artifact/model/{id}/rate\<close>, whose path has the fixed segment \<^verbatim>\<open>model\<close> whatever
  \<open>t\<close> is, and a GET of \<^verbatim>\<open>/artifact/{t}/{id}/cost\<close>.  The result depends on the network at
  these two addresses only, and it does depend on them: whenever both answer with JSON,
  the rating of the record is read from what the \<^verbatim>\<open>model\<close> rating address answered and
  the cost from what the cost address of type \<open>t\<close> answered.
\<close>

theorem fetchModelDetails_endpoints:
  "fetchModelDetails_requests ident t =
     [\<lparr>req_method = ''GET'',
       req_url = API_BASE_URL @ ''/artifact/model/'' @ ToString_value ident @ ''/rate'',
       req_body = None\<rparr>,
      \<lparr>req_method = ''GET'',
       req_url = API_BASE_URL @ ''/artifact/'' @ ToString_value t @ ''/'' @ ToString_value ident @ ''/cost'',
       req_body = None\<rparr>]
   \<and> hd (fetchModelDetails_requests ident t) = hd (fetchModelDetails_requests ident t')
   \<and> fetchModelDetails net ident t =
       fetchModelDetails
         (\<lambda>req. if req_url req = API_BASE_URL @ ''/artifact/model/'' @ ToString_value ident @ ''/rate''
                   \<or> req_url req = API_BASE_URL @ ''/artifact/'' @ ToString_value t @ ''/''
                                      @ ToString_value ident @ ''/cost''
                then net req else Inl (Error ''not contacted''))
         ident t
   \<and> (\<forall>rr cr ratingResponse costResponse vals.
         net \<lparr>req_method = ''GET'',
              req_url = API_BASE_URL @ ''/artifact/model/'' @ ToString_value ident @ ''/rate'',
              req_body = None\<rparr> = Inr rr
         \<and> body_json rr = Inr ratingResponse
         \<and> net \<lparr>req_method = ''GET'',
                req_url = API_BASE_URL @ ''/artifact/'' @ ToString_value t @ ''/''
                            @ ToString_value ident @ ''/cost'',
                req_body = None\<rparr> = Inr cr
         \<and> body_json cr = Inr costResponse
         \<and> Object_values costResponse = Inr vals \<longrightarrow>
         fetchModelDetails net ident t =
           Inr \<lparr>rating = nullish (opt_chain (Some ratingResponse) ''net_score'') (JStr ''N/A''),
                cost = ToString (nullish (opt_chain (first vals) ''total_cost'') (JStr ''N/A''))
                         @ '' MB''\<rparr>)"
proof -
  let ?rate = "\<lparr>req_method = ''GET'',
       req_url = API_BASE_URL @ ''/artifact/model/'' @ ToString_value ident @ ''/rate'',
       req_body = None\<rparr>"
  let ?cost = "\<lparr>req_method = ''GET'',
       req_url = API_BASE_URL @ ''/artifact/'' @ ToString_value t @ ''/'' @ ToString_value ident @ ''/cost'',
       req_body = None\<rparr>"
  let ?only = "\<lambda>req. if req_url req = API_BASE_URL @ ''/artifact/model/'' @ ToString_value ident @ ''/rate''
                   \<or> req_url req = API_BASE_URL @ ''/artifact/'' @ ToString_value t @ ''/''
                                      @ ToString_value ident @ ''/cost''
                then net req else Inl (Error ''not contacted'')"
  have calls: "fetchModelDetails_calls ident t = (?rate, ?cost)"
    by (simp add: fetchModelDetails_calls_def GET_def rate_url_def cost_url_def)
  have issued: "fetchModelDetails_requests ident t = [?rate, ?cost]"
    by (simp add: fetchModelDetails_requests_def calls)
  have same: "hd (fetchModelDetails_requests ident t) = hd (fetchModelDetails_requests ident t')"
    by (simp add: fetchModelDetails_requests_def fetchModelDetails_calls_def)
  have run: "\<And>n. fetchModelDetails n ident t =
      (case fetchModelDetails_try (n ?rate) (n ?cost) of Inl e \<Rightarrow> Inr sentinel | Inr d \<Rightarrow> Inr d)"
    by (simp add: fetchModelDetails_def calls)
  have "?only ?rate = net ?rate" and "?only ?cost = net ?cost"
    by simp_all
  then have upper: "fetchModelDetails net ident t = fetchModelDetails ?only ident t"
    by (simp only: run)
  have lower: "\<forall>rr cr ratingResponse costResponse vals.
         net ?rate = Inr rr \<and> body_json rr = Inr ratingResponse
         \<and> net ?cost = Inr cr \<and> body_json cr = Inr costResponse
         \<and> Object_values costResponse = Inr vals \<longrightarrow>
         fetchModelDetails net ident t =
           Inr \<lparr>rating = nullish (opt_chain (Some ratingResponse) ''net_score'') (JStr ''N/A''),
                cost = ToString (nullish (opt_chain (first vals) ''total_cost'') (JStr ''N/A''))
                         @ '' MB''\<rparr>"
    by (simp add: run fetchModelDetails_try_def then_json_def)
  show ?thesis
    using issued same upper lower by blast
qed

theorem fetchModelDetails_endpoints_witness:
  "fetchModelDetails_requests a1 type_dataset =
     [\<lparr>req_method = ''GET'',
       req_url = ''https://moy7eewxxe.execute-api.us-east-2.amazonaws.com/main/artifact/model/a1/rate'',
       req_body = None\<rparr>,
      \<lparr>req_method = ''GET'',
       req_url = ''https://moy7eewxxe.execute-api.us-east-2.amazonaws.com/main/artifact/dataset/a1/cost'',
       req_body = None\<rparr>]
   \<and> fetchModelDetails detail_endpoints a1 type_dataset
       = Inr \<lparr>rating = JNum ''0.8'', cost = ''12.5 MB''\<rparr>"
proof -
  have rate: "detail_endpoints
      \<lparr>req_method = ''GET'',
       req_url = API_BASE_URL @ ''/artifact/model/'' @ ToString_value a1 @ ''/rate'',
       req_body = None\<rparr> = Inr (json_response 200 rating_payload)"
    by (simp add: detail_endpoints_def API_BASE_URL_def a1_def)
  have cost: "detail_endpoints
      \<lparr>req_method = ''GET'',
       req_url = API_BASE_URL @ ''/artifact/'' @ ToString_value type_dataset @ ''/''
                   @ ToString_value a1 @ ''/cost'',
       req_body = None\<rparr> = Inr (json_response 200 cost_payload)"
    by (simp add: detail_endpoints_def API_BASE_URL_def a1_def type_dataset_def)
  have bodies: "body_json (json_response 200 rating_payload) = Inr rating_payload"
    "body_json (json_response 200 cost_payload) = Inr cost_payload"
    by (simp_all add: json_response_def)
  have vals: "Object_values cost_payload = Inr [JObj [(''total_cost'', JNum ''12.5'')]]"
    by (simp add: cost_payload_def)
  note inst = fetchModelDetails_endpoints [of a1 type_dataset type_model detail_endpoints]
  have issued: "fetchModelDetails_requests a1 type_dataset =
     [\<lparr>req_method = ''GET'',
       req_url = ''https://moy7eewxxe.execute-api.us-east-2.amazonaws.com/main/artifact/model/a1/rate'',
       req_body = None\<rparr>,
      \<lparr>req_method = ''GET'',
       req_url = ''https://moy7eewxxe.execute-api.us-east-2.amazonaws.com/main/artifact/dataset/a1/cost'',
       req_body = None\<rparr>]"
    using inst by (simp add: API_BASE_URL_def a1_def type_dataset_def)
  have "fetchModelDetails detail_endpoints a1 type_dataset =
      Inr \<lparr>rating = nullish (opt_chain (Some rating_payload) ''net_score'') (JStr ''N/A''),
           cost = ToString (nullish (opt_chain (first [JObj [(''total_cost'', JNum ''12.5'')]])
                              ''total_cost'') (JStr ''N/A'')) @ '' MB''\<rparr>"
    using inst rate cost bodies vals by blast
  then have result: "fetchModelDetails detail_endpoints a1 type_dataset
       = Inr \<lparr>rating = JNum ''0.8'', cost = ''12.5 MB''\<rparr>"
    by (simp add: rating_payload_def)
  show ?thesis
    using issued result by simp
qed

section \<open>Search flow\<close>

lemma trim_all_space: "(\<forall>c\<in>set query. is_space c) \<Longrightarrow> trim query = []"
proof -
  assume "\<forall>c\<in>set query. is_space c"
  then have d: "dropWhile is_space query = []"
    by (simp add: dropWhile_eq_Nil_conv)
  show ?thesis
    unfolding trim_def d by simp
qed

lemma blank_iff: "blank query \<longleftrightarrow> (\<forall>c\<in>set query. is_space c)"
proof
  assume "blank query"
  then have "dropWhile is_space (rev (dropWhile is_space query)) = []"
    by (auto simp: blank_def trim_def)
  then have all: "\<forall>c\<in>set (dropWhile is_space query). is_space c"
    by (simp add: dropWhile_eq_Nil_conv)
  have "dropWhile is_space query = []"
  proof (cases "dropWhile is_space query")
    case Nil
    then show ?thesis .
  next
    case (Cons c cs)
    then have "\<not> is_space c"
      by (metis hd_dropWhile list.sel(1) list.distinct(1))
    moreover have "is_space c" using all Cons by simp
    ultimately show ?thesis by simp
  qed
  then show "\<forall>c\<in>set query. is_space c"
    by (simp add: dropWhile_eq_Nil_conv)
next
  assume "\<forall>c\<in>set query. is_space c"
  then show "blank query"
    by (simp add: blank_def trim_all_space)
qed

lemma render_cards_frame:
  "render_cards xs s = Inr s' \<Longrightarrow>
     requests s' = requests s \<and> searchButton_disabled s' = searchButton_disabled s
     \<and> searchInput_disabled s' = searchInput_disabled s
     \<and> searchButton_innerHTML s' = searchButton_innerHTML s"
proof (induction xs arbitrary: s)
  case Nil
  then show ?case by simp
next
  case (Cons x xs)
  then show ?case
    by (cases "createModelCard x") auto
qed

lemma forEach_card_frame:
  "forEach_card v s = Inr s' \<Longrightarrow>
     requests s' = requests s \<and> searchButton_disabled s' = searchButton_disabled s
     \<and> searchInput_disabled s' = searchInput_disabled s
     \<and> searchButton_innerHTML s' = searchButton_innerHTML s"
  by (cases v) (auto dest: render_cards_frame)

lemma init_try_frame:
  "init_try out s = Inr s' \<Longrightarrow>
     requests s' = requests s \<and> searchButton_disabled s' = searchButton_disabled s
     \<and> searchInput_disabled s' = searchInput_disabled s
     \<and> searchButton_innerHTML s' = searchButton_innerHTML s"
  by (auto simp: init_try_def set_grid_def split: sum.splits if_splits dest!: forEach_card_frame)

lemma init_frame:
  "requests (init net s) = requests s @ [list_request]
   \<and> searchButton_disabled (init net s) = searchButton_disabled s
   \<and> searchInput_disabled (init net s) = searchInput_disabled s
   \<and> searchButton_innerHTML (init net s) = searchButton_innerHTML s"
  by (auto simp: init_def Let_def set_grid_def issue_def split: sum.splits dest!: init_try_frame)

lemma list_is_not_regex_search:
  "req_url list_request \<noteq> API_BASE_URL @ ''/artifact/byRegEx''"
  by (simp add: list_request_def)

text \<open>
  C7.  For every query that is empty or consists only of white space, \<^verbatim>\<open>searchArtifacts\<close>
  re-enables the search button and the search input and then runs the list flow
  (\<^verbatim>\<open>init\<close>): the one request it issues is the list request, and none goes to
  \<^verbatim>\<open>/artifact/byRegEx\<close>.
\<close>

theorem blank_query_routes_to_list_flow:
  assumes "\<forall>c\<in>set query. is_space c"
  shows
    "searchArtifacts query net s =
       init net
         (s\<lparr>searchButton_disabled := False,
            searchInput_disabled := False,
            searchButton_innerHTML :=
              (case searchButton_originalButtonContent s of
                 None \<Rightarrow> search_label
               | Some c \<Rightarrow> if c = [] then search_label else c)\<rparr>)
     \<and> requests (searchArtifacts query net s) = requests s @ [list_request]
     \<and> regex_search_requests (searchArtifacts query net s) = regex_search_requests s
     \<and> \<not> searchButton_disabled (searchArtifacts query net s)
     \<and> \<not> searchInput_disabled (searchArtifacts query net s)"
proof -
  have b: "blank query"
    using assms by (simp add: blank_iff)
  have eq: "searchArtifacts query net s =
       init net
         (s\<lparr>searchButton_disabled := False,
            searchInput_disabled := False,
            searchButton_innerHTML :=
              (case searchButton_originalButtonContent s of
                 None \<Rightarrow> search_label
               | Some c \<Rightarrow> if c = [] then search_label else c)\<rparr>)"
    using b by (simp add: searchArtifacts_def)
  show ?thesis
    unfolding eq using list_is_not_regex_search
    by (simp add: init_frame regex_search_requests_def)
qed

lemma spaces_blank: "\<forall>c\<in>set ''   ''. is_space c"
  by (simp add: is_space_def)

theorem blank_query_routes_to_list_flow_witness:
  "searchArtifacts ''   '' two_artifacts fresh_page =
     init two_artifacts
       (fresh_page\<lparr>searchButton_disabled := False,
                   searchInput_disabled := False,
                   searchButton_innerHTML := search_label\<rparr>)
   \<and> requests (searchArtifacts ''   '' two_artifacts fresh_page) = [list_request]
   \<and> regex_search_requests (searchArtifacts ''   '' two_artifacts fresh_page) = []
   \<and> \<not> searchButton_disabled (searchArtifacts ''   '' two_artifacts fresh_page)
   \<and> \<not> searchInput_disabled (searchArtifacts ''   '' two_artifacts fresh_page)"
proof -
  have original: "searchButton_originalButtonContent fresh_page = None"
    by (simp add: fresh_page_def)
  have none_yet: "requests fresh_page = []" "regex_search_requests fresh_page = []"
    by (simp_all add: fresh_page_def regex_search_requests_def)
  show ?thesis
    using blank_query_routes_to_list_flow
            [OF spaces_blank, of two_artifacts fresh_page,
             unfolded original none_yet option.case append_Nil] .
qed

lemma states_differ: "no_matches_html query \<noteq> search_error_html"
  by (simp add: no_matches_html_def search_error_html_def)

text \<open>
  C8.  For every query that is not blank: a 404 from the regex-search endpoint leaves the
  grid showing the "no matches" placeholder, while any other status outside 2xx and a
  transport failure leave it showing the search error; the two renderings differ.
\<close>

theorem search_404_is_no_matches_not_error:
  assumes "\<not> blank query"
  shows
    "(\<forall>r. net (search_request query) = Inr r \<and> status r = 404 \<longrightarrow>
        modelsGrid_innerHTML (searchArtifacts query net s) = no_matches_html query)
     \<and> (\<forall>r. net (search_request query) = Inr r \<and> \<not> ok r \<and> status r \<noteq> 404 \<longrightarrow>
        modelsGrid_innerHTML (searchArtifacts query net s) = search_error_html)
     \<and> (\<forall>e. net (search_request query) = Inl e \<longrightarrow>
        modelsGrid_innerHTML (searchArtifacts query net s) = search_error_html)
     \<and> no_matches_html query \<noteq> search_error_html"
  using assms states_differ
  by (auto simp: searchArtifacts_def search_try_def Let_def set_grid_def issue_def ok_def)

lemma bert_not_blank: "\<not> blank ''bert.*''"
  by (simp add: blank_def trim_def is_space_def)

theorem search_404_is_no_matches_not_error_witness:
  "\<not> blank ''bert.*''
   \<and> modelsGrid_innerHTML (searchArtifacts ''bert.*'' not_found fresh_page) = no_matches_html ''bert.*''
   \<and> modelsGrid_innerHTML (searchArtifacts ''bert.*'' server_error fresh_page) = search_error_html
   \<and> modelsGrid_innerHTML (searchArtifacts ''bert.*'' offline fresh_page) = search_error_html
   \<and> no_matches_html ''bert.*'' \<noteq> search_error_html"
proof -
  have nf: "not_found (search_request ''bert.*'') = Inr (plain_response 404 ''No artifact found under this regex.'')
            \<and> status (plain_response 404 ''No artifact found under this regex.'') = 404"
    by (simp add: not_found_def plain_response_def)
  have se: "server_error (search_request ''bert.*'') = Inr (plain_response 500 ''Internal Server Error'')
            \<and> \<not> ok (plain_response 500 ''Internal Server Error'')
            \<and> status (plain_response 500 ''Internal Server Error'') \<noteq> 404"
    by (simp add: server_error_def plain_response_def ok_def)
  have off: "offline (search_request ''bert.*'') = Inl (TypeError ''Failed to fetch'')"
    by (simp add: offline_def)
  show ?thesis
    using search_404_is_no_matches_not_error [OF bert_not_blank, of not_found fresh_page]
          search_404_is_no_matches_not_error [OF bert_not_blank, of server_error fresh_page]
          search_404_is_no_matches_not_error [OF bert_not_blank, of offline fresh_page]
          nf se off bert_not_blank
    by blast
qed

section \<open>Detail cache\<close>

lemma cost_url_not_rate_url: "cost_url a t \<noteq> rate_url b"
proof
  assume "cost_url a t = rate_url b"
  then have "last (cost_url a t) = last (rate_url b)" by simp
  then show False by (simp add: cost_url_def rate_url_def)
qed

lemma id_of_card: "get_prop (Some model) ''id'' = Inr (Some k) \<Longrightarrow> opt_chain (Some model) ''id'' = Some k"
  by (cases model) auto

lemma card_click_miss:
  assumes "get_prop (Some model) ''id'' = Inr (Some k)" and "truthy (Some k)"
    and "modelDetailsCache s k = None"
  shows "card_click model s =
           s\<lparr>loading := List.insert model (loading s),
             requests := requests s @ fetchModelDetails_requests (Some k) (opt_chain (Some model) ''type''),
             awaiting := awaiting s @ [model]\<rparr>"
  using assms by (simp add: card_click_def)

lemma card_click_hit:
  assumes "get_prop (Some model) ''id'' = Inr (Some k)" and "truthy (Some k)"
    and "modelDetailsCache s k = Some d"
  shows "requests (card_click model s) = requests s
         \<and> modelDetailsCache (card_click model s) = modelDetailsCache s"
  using assms by (auto simp: card_click_def openModelModal_def split: sum.splits)

lemma sequences_after_miss:
  "sub_fetch_sequences k
     (s\<lparr>loading := l,
        requests := requests s @ fetchModelDetails_requests (Some k) t,
        awaiting := a\<rparr>) = sub_fetch_sequences k s + 1"
  using cost_url_not_rate_url [of "Some k" t "Some k"]
  by (simp add: sub_fetch_sequences_def fetchModelDetails_requests_def fetchModelDetails_calls_def
        GET_def)

lemma repeated_clicks:
  assumes "get_prop (Some model) ''id'' = Inr (Some k)" and "truthy (Some k)"
  shows "modelDetailsCache s k = None \<Longrightarrow>
         modelDetailsCache (run (replicate n (Click model)) s) k = None
         \<and> sub_fetch_sequences k (run (replicate n (Click model)) s) = sub_fetch_sequences k s + n"
proof (induction n arbitrary: s)
  case 0
  then show ?case by simp
next
  case (Suc n)
  let ?s1 = "card_click model s"
  have s1: "?s1 = s\<lparr>loading := List.insert model (loading s),
             requests := requests s @ fetchModelDetails_requests (Some k) (opt_chain (Some model) ''type''),
             awaiting := awaiting s @ [model]\<rparr>"
    using assms Suc.prems by (rule card_click_miss)
  have miss: "modelDetailsCache ?s1 k = None"
    unfolding s1 using Suc.prems by simp
  have count: "sub_fetch_sequences k ?s1 = sub_fetch_sequences k s + 1"
    unfolding s1 by (rule sequences_after_miss)
  show ?case
    using Suc.IH [OF miss] count by simp
qed

lemma card_resume_stores:
  assumes "opt_chain (Some model) ''id'' = Some k"
    and "fetchModelDetails net (Some k) (opt_chain (Some model) ''type'') = Inr d"
  shows "modelDetailsCache (card_resume model net s) = (modelDetailsCache s)(k \<mapsto> d)
         \<and> requests (card_resume model net s) = requests s"
  using assms by (auto simp: card_resume_def openModelModal_def Let_def split: sum.splits)

lemma click_settle:
  assumes "get_prop (Some model) ''id'' = Inr (Some k)" and "truthy (Some k)"
    and "modelDetailsCache s k = None"
    and "fetchModelDetails net (Some k) (opt_chain (Some model) ''type'') = Inr d"
  shows "modelDetailsCache (run [Click model, Settle model net] s) k = Some d
         \<and> requests (run [Click model, Settle model net] s) = requests (run [Click model] s)"
proof -
  let ?s1 = "card_click model s"
  have s1: "?s1 = s\<lparr>loading := List.insert model (loading s),
             requests := requests s @ fetchModelDetails_requests (Some k) (opt_chain (Some model) ''type''),
             awaiting := awaiting s @ [model]\<rparr>"
    using assms(1-3) by (rule card_click_miss)
  have waiting: "model \<in> set (awaiting ?s1)"
    unfolding s1 by simp
  have step2: "step (Settle model net) ?s1 =
                 card_resume model net (?s1\<lparr>awaiting := remove1 model (awaiting ?s1)\<rparr>)"
    using waiting by simp
  have stored: "modelDetailsCache (step (Settle model net) ?s1) = (modelDetailsCache ?s1)(k \<mapsto> d)
                \<and> requests (step (Settle model net) ?s1) = requests ?s1"
    unfolding step2 using card_resume_stores [OF id_of_card [OF assms(1)] assms(4)] by simp
  then show ?thesis by simp
qed

text \<open>
  C2 (amended).  For every artifact id, a request for its details issued once an earlier
  one has resolved, with the cache holding an entry for the id, performs no sub-fetch.
  Requests issued while the cache holds no entry for the id are not coalesced: the cache
  only ever holds resolved records, so each of \<open>n\<close> such requests, also those issued
  before the first one resolves, starts a sub-fetch sequence of its own.
\<close>

theorem clicks_are_not_coalesced:
  assumes "get_prop (Some model) ''id'' = Inr (Some k)" and "truthy (Some k)"
  shows
    "(modelDetailsCache s k = None \<longrightarrow>
        sub_fetch_sequences k (run (replicate n (Click model)) s) = sub_fetch_sequences k s + n)
     \<and> (modelDetailsCache s k \<noteq> None \<longrightarrow> requests (step (Click model) s) = requests s)
     \<and> (modelDetailsCache s k = None \<longrightarrow>
        requests (run [Click model, Settle model net, Click model] s) = requests (run [Click model] s))"
proof (intro conjI impI)
  assume "modelDetailsCache s k = None"
  then show "sub_fetch_sequences k (run (replicate n (Click model)) s) = sub_fetch_sequences k s + n"
    using repeated_clicks [OF assms] by simp
next
  assume "modelDetailsCache s k \<noteq> None"
  then obtain d where "modelDetailsCache s k = Some d" by auto
  then show "requests (step (Click model) s) = requests s"
    using card_click_hit [OF assms] by simp
next
  assume miss: "modelDetailsCache s k = None"
  obtain d where d: "fetchModelDetails net (Some k) (opt_chain (Some model) ''type'') = Inr d"
    using fetchModelDetails_total by blast
  let ?s2 = "run [Click model, Settle model net] s"
  have cs: "modelDetailsCache ?s2 k = Some d" "requests ?s2 = requests (run [Click model] s)"
    using click_settle [OF assms miss d] by simp_all
  have "requests (card_click model ?s2) = requests ?s2"
    using card_click_hit [OF assms cs(1)] by simp
  then show "requests (run [Click model, Settle model net, Click model] s) = requests (run [Click model] s)"
    using cs(2) by simp
qed

lemma bert_id: "get_prop (Some bert_model) ''id'' = Inr (Some (JStr ''a1''))"
  by (simp add: bert_model_def)

lemma a1_truthy: "truthy (Some (JStr ''a1''))"
  by simp

lemma fresh_miss: "modelDetailsCache fresh_page (JStr ''a1'') = None"
  by (simp add: fresh_page_def)

lemma fresh_none: "sub_fetch_sequences (JStr ''a1'') fresh_page = 0"
  by (simp add: fresh_page_def sub_fetch_sequences_def)

lemma warm_hit: "modelDetailsCache warm_page (JStr ''a1'') \<noteq> None"
proof -
  obtain d where d: "fetchModelDetails all_up (Some (JStr ''a1'')) (opt_chain (Some bert_model) ''type'') = Inr d"
    using fetchModelDetails_total by blast
  show ?thesis
    unfolding warm_page_def
    using click_settle [OF bert_id a1_truthy fresh_miss d] by simp
qed

theorem clicks_are_not_coalesced_witness:
  "sub_fetch_sequences (JStr ''a1'') (run (replicate 3 (Click bert_model)) fresh_page) = 3
   \<and> requests (run [Click bert_model, Settle bert_model all_up, Click bert_model] fresh_page)
       = requests (run [Click bert_model] fresh_page)
   \<and> requests (step (Click bert_model) warm_page) = requests warm_page"
  using clicks_are_not_coalesced [OF bert_id a1_truthy, of fresh_page 3 all_up]
        clicks_are_not_coalesced [OF bert_id a1_truthy, of warm_page 0 all_up]
        fresh_miss fresh_none warm_hit
  by simp

text \<open>
  Two clicks on the same card before the first fetch settles: both handlers are suspended,
  and two rating requests have been issued for the one id.
\<close>

theorem concurrent_clicks_fetch_twice:
  "awaiting (run [Click bert_model, Click bert_model] fresh_page) = [bert_model, bert_model]
   \<and> sub_fetch_sequences (JStr ''a1'') (run [Click bert_model, Click bert_model] fresh_page) = 2"
  by code_simp

text \<open>
  In general: when a sub-request of the detail fetch fails, \<^verbatim>\<open>fetchModelDetails\<close> resolves
  with the sentinel record, the handler stores it under the id, and the next click on the
  card finds it in the cache and issues no request.
\<close>

lemma failed_details_stay_cached:
  assumes "get_prop (Some model) ''id'' = Inr (Some k)" and "truthy (Some k)"
    and "modelDetailsCache s k = None"
    and "fetch_json net (rate_url (Some k)) = Inl e
         \<or> fetch_json net (cost_url (Some k) (opt_chain (Some model) ''type'')) = Inl e"
  shows
    "modelDetailsCache (run [Click model, Settle model net] s) k = Some sentinel
     \<and> requests (run [Click model, Settle model net, Click model] s)
         = requests (run [Click model, Settle model net] s)
     \<and> sub_fetch_sequences k (run [Click model, Settle model net, Click model] s)
         = sub_fetch_sequences k s + 1"
proof -
  have d: "fetchModelDetails net (Some k) (opt_chain (Some model) ''type'') = Inr sentinel"
    using assms(4) by (rule fetchModelDetails_sentinel)
  let ?s2 = "run [Click model, Settle model net] s"
  have cs: "modelDetailsCache ?s2 k = Some sentinel" "requests ?s2 = requests (run [Click model] s)"
    using click_settle [OF assms(1-3) d] by simp_all
  have again: "requests (card_click model ?s2) = requests ?s2"
    using card_click_hit [OF assms(1,2) cs(1)] by simp
  have one: "sub_fetch_sequences k (run [Click model] s) = sub_fetch_sequences k s + 1"
    using repeated_clicks [OF assms(1-3), of 1] by simp
  have "sub_fetch_sequences k (run [Click model, Settle model net, Click model] s)
          = sub_fetch_sequences k (run [Click model] s)"
    using again cs(2) by (simp add: sub_fetch_sequences_def)
  then show ?thesis
    using cs(1) again one by simp
qed

text \<open>
  C3.  The claim is that a failed detail fetch leaves no entry for the id in the cache, so
  that the next request fetches afresh.  The handler's own \<^verbatim>\<open>catch\<close> does that: it alerts
  and stores nothing.  It never runs for a failed fetch, because \<^verbatim>\<open>fetchModelDetails\<close>
  swallows the failure and resolves with the sentinel record, which the handler then
  stores like any other.  With the network down, one click on the card of \<^verbatim>\<open>a1\<close> leaves
  \<^verbatim>\<open>{rating: "N/A", cost: "N/A"}\<close> in the cache under \<^verbatim>\<open>a1\<close>; a second click issues no
  request (one rating request in all) and shows the cached sentinel again.
\<close>

theorem failed_fetch_is_cached:
  "fetchModelDetails offline (Some (JStr ''a1'')) (Some (JStr ''model'')) = Inr sentinel
   \<and> modelDetailsCache (run [Click bert_model, Settle bert_model offline] fresh_page) (JStr ''a1'')
       = Some sentinel
   \<and> alerts (run [Click bert_model, Settle bert_model offline] fresh_page) = []
   \<and> sub_fetch_sequences (JStr ''a1'')
        (run [Click bert_model, Settle bert_model offline, Click bert_model] fresh_page) = 1
   \<and> modals (run [Click bert_model, Settle bert_model offline, Click bert_model] fresh_page)
       = [(bert_model, sentinel), (bert_model, sentinel)]"
  by code_simp

end
